theory Spec2Isabelle
  imports Main "HOL-Library.Sublist"
begin

section \<open>Application state\<close>

text \<open>
  The application object carries two process-wide attributes: \<open>message_history\<close>, a list
  of \<open>MessageHistoryModel\<close> objects, and \<open>system_information\<close>, a dictionary from the
  three onboarding questions to their answers. Python strings are modelled as \<open>string\<close>;
  the newline character is written \<open>CHR 0x0A\<close>.
\<close>

record MessageHistoryModel =
  message :: string

record app =
  message_history :: "MessageHistoryModel list"
  system_information :: "string \<Rightarrow> string option"

definition initial_app :: app where
  "initial_app =
     \<lparr>message_history = [],
      system_information =
        [''Systems being used'' \<mapsto> '''',
         ''Initial Observations'' \<mapsto> '''',
         ''Initial Error messages'' \<mapsto> '''']\<rparr>"

datatype error = UndefinedValueError | KeyError string | IndexError | UpstreamError

text \<open>Subscripting a dictionary raises \<open>KeyError\<close> when the key is missing.\<close>

definition getitem :: "(string \<Rightarrow> string option) \<Rightarrow> string \<Rightarrow> error + string" where
  "getitem d k = (case d k of None \<Rightarrow> Inl (KeyError k) | Some v \<Rightarrow> Inr v)"

section \<open>The index and onboarding endpoints\<close>

text \<open>
  Of the component tree that \<open>api_index\<close> returns, two parts depend on its inputs: the
  rows of the history table and the path of the server-load component, the f-string
  \<open>/sse/{chat}\<close>, in which an absent \<open>chat\<close> is formatted as the text \<open>None\<close>.
\<close>

record page =
  table_data :: "MessageHistoryModel list"
  server_load_path :: string

definition api_index :: "string option \<Rightarrow> bool \<Rightarrow> app \<Rightarrow> page \<times> app" where
  "api_index chat reset a =
     (let a' = (if reset then a\<lparr>message_history := []\<rparr> else a)
      in (\<lparr>table_data = message_history a',
           server_load_path = ''/sse/'' @ (case chat of None \<Rightarrow> ''None'' | Some s \<Rightarrow> s)\<rparr>,
          a'))"

definition update_initial_information :: "string \<Rightarrow> string \<Rightarrow> string \<Rightarrow> app \<Rightarrow> app" where
  "update_initial_information systems_used initial_observations initial_errors a =
     a\<lparr>system_information :=
         (system_information a)
           (''Systems being used'' \<mapsto> systems_used,
            ''Initial Observations'' \<mapsto> initial_observations,
            ''Initial Error messages'' \<mapsto> initial_errors)\<rparr>"

section \<open>The messages sent to the chat service\<close>

record ChatMessage =
  role :: string
  content :: string

definition system_message :: string where
  "system_message =
     ''Your job is to help software developers and system engineers to fix and report major incidents for their systems.''"

text \<open>
  The prompt template starts from a fixed header, is extended by the loop over the
  history (one entry and one newline per round) and ends with the new prompt.
\<close>

definition prompt_template :: "app \<Rightarrow> string \<Rightarrow> string" where
  "prompt_template a prompt =
     foldl (\<lambda>t h. t @ (message h @ [CHR 0x0A]))
       (''Previous messages:'' @ [CHR 0x0A]) (message_history a)
     @ (''Human: '' @ prompt)"

definition mistral_messages :: "app \<Rightarrow> string \<Rightarrow> error + ChatMessage list" where
  "mistral_messages a prompt =
     (case getitem (system_information a) ''Systems being used'' of
        Inl e \<Rightarrow> Inl e
      | Inr systems \<Rightarrow>
     (case getitem (system_information a) ''Initial Observations'' of
        Inl e \<Rightarrow> Inl e
      | Inr observations \<Rightarrow>
     (case getitem (system_information a) ''Initial Error messages'' of
        Inl e \<Rightarrow> Inl e
      | Inr errors \<Rightarrow>
        Inr [\<lparr>role = ''system'', content = system_message\<rparr>,
             \<lparr>role = ''assistant'', content = ''What systems are you using for your Application?''\<rparr>,
             \<lparr>role = ''user'', content = systems\<rparr>,
             \<lparr>role = ''assistant'', content = ''What are your initial observations for you incident?''\<rparr>,
             \<lparr>role = ''user'', content = observations\<rparr>,
             \<lparr>role = ''assistant'', content = ''Have you had any initial error messages?''\<rparr>,
             \<lparr>role = ''user'', content = errors\<rparr>,
             \<lparr>role = ''user'', content = prompt_template a prompt\<rparr>])))"

section \<open>The upstream token stream\<close>

text \<open>
  A chunk of the streamed chat completion holds a list of choices, each with the content
  of its delta, which may be absent. The stream is a finite list of chunks that either
  completes or is interrupted by an exception of the client.
\<close>

datatype choice = Choice (delta_content: "string option")

datatype chunk = Chunk (choices: "choice list")

datatype stream_end = Completed | Interrupted

text \<open>
  The expression \<open>chunk.choices[0].delta.content or ""\<close>: indexing an empty list of
  choices raises, an absent content reads as the empty string.
\<close>

definition token :: "chunk \<Rightarrow> error + string" where
  "token c =
     (case choices c of
        [] \<Rightarrow> Inl IndexError
      | ch # _ \<Rightarrow> Inr (case delta_content ch of None \<Rightarrow> '''' | Some s \<Rightarrow> s))"

text \<open>
  What the program takes from outside: the configured API key (absent when the setting is
  undefined), the streaming chat call of the client, as a function of the key, the model
  name and the messages, and the JSON dump of the page holding one Markdown component, as
  a function of the component's text.
\<close>

record env =
  config_MISTRAL_API_KEY :: "string option"
  chat_stream :: "string \<Rightarrow> string \<Rightarrow> ChatMessage list \<Rightarrow> chunk list \<times> stream_end"
  model_dump_json :: "string \<Rightarrow> string"

definition sse_msg :: "env \<Rightarrow> string \<Rightarrow> string" where
  "sse_msg E text = ''data: '' @ model_dump_json E text @ [CHR 0x0A, CHR 0x0A]"

section \<open>The two response generators\<close>

text \<open>
  A generator is modelled by its control point. Resuming it runs the body up to the next
  thing the consumer can observe: a frame it yields, a sleep it awaits, or an exception
  that ends it.
\<close>

datatype event = Frame string | Sleep nat | Raise error

text \<open>
  The control points: \<open>EmptyStart\<close> and \<open>AiStart\<close> are the two generators before
  their first resumption, \<open>AiLoop\<close> is the \<open>for\<close> loop suspended at its \<open>yield\<close>, with the
  current \<open>output\<close> and \<open>msg\<close> and the rest of the stream, \<open>Beat\<close> is the head of the
  \<open>while\<close> loop with its \<open>msg\<close>, \<open>Nap\<close> that loop suspended at its \<open>yield\<close>, and
  \<open>Closed\<close> a generator ended by an exception.
\<close>

datatype gen =
    EmptyStart
  | AiStart string
  | AiLoop string string "chunk list" stream_end
  | Beat string
  | Nap string
  | Closed

text \<open>Calling a generator function creates the generator and runs none of its body.\<close>

definition empty_response :: gen where
  "empty_response = EmptyStart"

definition ai_response_generator :: "string \<Rightarrow> gen" where
  "ai_response_generator prompt = AiStart prompt"

definition sse_ai_response :: "string option \<Rightarrow> gen" where
  "sse_ai_response prompt =
     (case prompt of
        None \<Rightarrow> empty_response
      | Some p \<Rightarrow>
          if p = '''' \<or> p = ''None'' then empty_response else ai_response_generator p)"

text \<open>
  The start of \<open>ai_response_generator\<close> up to the \<open>for\<close> loop: the client is built
  from the configured key, the messages are assembled from the state, and the streaming
  call is made for the model \<open>mistral-small\<close>.
\<close>

definition open_stream :: "env \<Rightarrow> app \<Rightarrow> string \<Rightarrow> error + chunk list \<times> stream_end" where
  "open_stream E a prompt =
     (case config_MISTRAL_API_KEY E of
        None \<Rightarrow> Inl UndefinedValueError
      | Some key \<Rightarrow>
          (case mistral_messages a prompt of
             Inl err \<Rightarrow> Inl err
           | Inr msgs \<Rightarrow> Inr (chat_stream E key ''mistral-small'' msgs)))"

definition initial_output :: "string \<Rightarrow> string" where
  "initial_output prompt =
     (''**User:** '' @ prompt @ [CHR 0x0A, CHR 0x0A]) @ ''**Chatbot:** ''"

text \<open>
  The \<open>for\<close> loop over the remaining chunks, with the current \<open>output\<close> and \<open>msg\<close>: an
  empty token goes on to the next chunk; a non-empty one is appended and the new frame
  is yielded; at the end of the stream the output is appended to the history and the
  heartbeat loop yields \<open>msg\<close> for the first time.
\<close>

fun for_loop :: "env \<Rightarrow> app \<Rightarrow> string \<Rightarrow> string \<Rightarrow> chunk list \<Rightarrow> stream_end
    \<Rightarrow> event \<times> app \<times> gen" where
  "for_loop E a output msg [] Completed =
     (Frame msg, a\<lparr>message_history := message_history a @ [\<lparr>message = output\<rparr>]\<rparr>, Nap msg)"
| "for_loop E a output msg [] Interrupted = (Raise UpstreamError, a, Closed)"
| "for_loop E a output msg (c # cs) e =
     (case token c of
        Inl err \<Rightarrow> (Raise err, a, Closed)
      | Inr t \<Rightarrow>
          if t \<noteq> '''' then
            (let output' = output @ t; msg' = sse_msg E output'
             in (Frame msg', a, AiLoop output' msg' cs e))
          else for_loop E a output msg cs e)"

fun step :: "env \<Rightarrow> app \<times> gen \<Rightarrow> (event \<times> app \<times> gen) option" where
  "step E (a, EmptyStart) = Some (Frame (sse_msg E ''''), a, Beat (sse_msg E ''''))"
| "step E (a, AiStart prompt) =
     (case open_stream E a prompt of
        Inl err \<Rightarrow> Some (Raise err, a, Closed)
      | Inr (cs, e) \<Rightarrow> Some (for_loop E a (initial_output prompt) '''' cs e))"
| "step E (a, AiLoop output msg cs e) = Some (for_loop E a output msg cs e)"
| "step E (a, Beat msg) = Some (Frame msg, a, Nap msg)"
| "step E (a, Nap msg) = Some (Sleep 10, a, Beat msg)"
| "step E (a, Closed) = None"

text \<open>The first \<open>n\<close> observable events of a generator, with the state they leave.\<close>

fun run :: "env \<Rightarrow> nat \<Rightarrow> app \<times> gen \<Rightarrow> event list \<times> app \<times> gen" where
  "run E 0 s = ([], s)"
| "run E (Suc n) s =
     (case step E s of
        None \<Rightarrow> ([], s)
      | Some (ev, s') \<Rightarrow> (case run E n s' of (evs, s'') \<Rightarrow> (ev # evs, s'')))"

section \<open>Handlers and open streams on one event loop\<close>

text \<open>
  The generator has reached the heartbeat loop, which both generators end in.
\<close>

fun idle :: "gen \<Rightarrow> bool" where
  "idle (Beat m) = True"
| "idle (Nap m) = True"
| "idle g = False"










section \<open>Facts about the loops\<close>

lemma foldl_append_concat:
  "foldl (\<lambda>t h. t @ f h) s xs = s @ concat (map f xs)"
  by (induction xs arbitrary: s) simp_all

lemma run_add:
  "run E (m + n) s =
     (case run E m s of (e1, s1) \<Rightarrow> (case run E n s1 of (e2, s2) \<Rightarrow> (e1 @ e2, s2)))"
proof (induction m arbitrary: s)
  case 0
  then show ?case by (simp split: prod.splits)
next
  case (Suc m)
  show ?case
  proof (cases "step E s")
    case None
    then have "run E n s = ([], s)" by (cases n) simp_all
    with None show ?thesis by simp
  next
    case (Some r)
    then show ?thesis using Suc.IH by (cases r) (simp split: prod.splits)
  qed
qed

lemma run_beat:
  "run E (2 * k) (a, Beat m) = (concat (replicate k [Frame m, Sleep 10]), a, Beat m)"
  by (induction k) simp_all

lemma frames_Cons:
  "map (\<lambda>k. f (out @ concat (take (Suc k) (t # ts)))) [0..<Suc (length ts)]
   = f (out @ t) # map (\<lambda>k. f ((out @ t) @ concat (take (Suc k) ts))) [0..<length ts]"
proof -
  have "[0..<Suc (length ts)] = 0 # map Suc [0..<length ts]"
    by (simp add: upt_conv_Cons map_Suc_upt del: upt_Suc)
  then show ?thesis by (simp add: comp_def del: upt_Suc)
qed

lemma run_for_loop:
  "map token cs = map Inr ts \<Longrightarrow>
   run E (Suc (length (filter (\<lambda>t. t \<noteq> []) ts))) (a, AiLoop out msg cs Completed) =
     (map Frame (map (\<lambda>k. sse_msg E (out @ concat (take (Suc k) (filter (\<lambda>t. t \<noteq> []) ts))))
                  [0..<length (filter (\<lambda>t. t \<noteq> []) ts)])
      @ [Frame (last (msg # map (\<lambda>k. sse_msg E (out @ concat (take (Suc k) (filter (\<lambda>t. t \<noteq> []) ts))))
                  [0..<length (filter (\<lambda>t. t \<noteq> []) ts)]))],
      a\<lparr>message_history := message_history a @ [\<lparr>message = out @ concat ts\<rparr>]\<rparr>,
      Nap (last (msg # map (\<lambda>k. sse_msg E (out @ concat (take (Suc k) (filter (\<lambda>t. t \<noteq> []) ts))))
                  [0..<length (filter (\<lambda>t. t \<noteq> []) ts)])))"
proof (induction cs arbitrary: ts out msg)
  case Nil
  then show ?case by simp
next
  case (Cons c cs)
  then obtain t ts' where ts: "ts = t # ts'" and c: "token c = Inr t"
    and rest: "map token cs = map Inr ts'"
    by (cases ts) auto
  define ns where "ns = filter (\<lambda>t. t \<noteq> []) ts'"
  show ?case
  proof (cases "t = []")
    case True
    have "run E (Suc n) (a, AiLoop out msg (c # cs) Completed)
        = run E (Suc n) (a, AiLoop out msg cs Completed)" for n
      using c True by simp
    then show ?thesis using Cons.IH [OF rest, of out msg] True ts by simp
  next
    case False
    have st: "step E (a, AiLoop out msg (c # cs) Completed)
            = Some (Frame (sse_msg E (out @ t)), a, AiLoop (out @ t) (sse_msg E (out @ t)) cs Completed)"
      using c False by (simp add: Let_def)
    have flt: "filter (\<lambda>t. t \<noteq> []) ts = t # ns"
      using False ts by (simp add: ns_def)
    have cat: "out @ concat ts = (out @ t) @ concat ts'"
      using ts by simp
    have unfold: "run E (Suc (Suc (length ns))) (a, AiLoop out msg (c # cs) Completed)
        = (case run E (Suc (length ns)) (a, AiLoop (out @ t) (sse_msg E (out @ t)) cs Completed) of
             (evs, s) \<Rightarrow> (Frame (sse_msg E (out @ t)) # evs, s))"
      by (simp only: run.simps(2) [of E "Suc (length ns)"] st option.case prod.case)
    show ?thesis
      unfolding flt cat length_Cons unfold
      by (simp only: Cons.IH [OF rest, of "out @ t" "sse_msg E (out @ t)", folded ns_def]
            prod.case frames_Cons list.map append_Cons last.simps list.distinct if_False)
  qed
qed


lemma run_for_loop_content:
  "map token cs = map Inr ts \<Longrightarrow>
   \<exists>g. run E (length (filter (\<lambda>t. t \<noteq> []) ts)) (a, AiLoop out msg cs e) =
     (map Frame (map (\<lambda>k. sse_msg E (out @ concat (take (Suc k) (filter (\<lambda>t. t \<noteq> []) ts))))
                  [0..<length (filter (\<lambda>t. t \<noteq> []) ts)]), a, g)
     \<and> \<not> idle g"
proof (induction cs arbitrary: ts out msg)
  case Nil
  then show ?case by simp
next
  case (Cons c cs)
  then obtain t ts' where ts: "ts = t # ts'" and c: "token c = Inr t"
    and rest: "map token cs = map Inr ts'"
    by (cases ts) auto
  define ns where "ns = filter (\<lambda>t. t \<noteq> []) ts'"
  show ?case
  proof (cases "t = []")
    case True
    note empty = this
    have flt: "filter (\<lambda>t. t \<noteq> []) ts = ns"
      using True ts by (simp add: ns_def)
    show ?thesis
    proof (cases ns)
      case Nil
      then show ?thesis unfolding flt by simp
    next
      case (Cons n ns')
      have "run E (Suc m) (a, AiLoop out msg (c # cs) e)
          = run E (Suc m) (a, AiLoop out msg cs e)" for m
        using c empty by simp
      then show ?thesis
        using Cons.IH [OF rest, of out msg] Cons unfolding flt ns_def [symmetric]
        by (simp del: run.simps upt_Suc)
    qed
  next
    case False
    have st: "step E (a, AiLoop out msg (c # cs) e)
            = Some (Frame (sse_msg E (out @ t)), a, AiLoop (out @ t) (sse_msg E (out @ t)) cs e)"
      using c False by (simp add: Let_def)
    have flt: "filter (\<lambda>t. t \<noteq> []) ts = t # ns"
      using False ts by (simp add: ns_def)
    have unfold: "run E (Suc (length ns)) (a, AiLoop out msg (c # cs) e)
        = (case run E (length ns) (a, AiLoop (out @ t) (sse_msg E (out @ t)) cs e) of
             (evs, s) \<Rightarrow> (Frame (sse_msg E (out @ t)) # evs, s))"
      by (simp only: run.simps(2) [of E "length ns"] st option.case prod.case)
    from Cons.IH [OF rest, of "out @ t" "sse_msg E (out @ t)", folded ns_def]
    obtain g where g: "run E (length ns) (a, AiLoop (out @ t) (sse_msg E (out @ t)) cs e)
        = (map Frame (map (\<lambda>k. sse_msg E ((out @ t) @ concat (take (Suc k) ns))) [0..<length ns]), a, g)"
      and ng: "\<not> idle g"
      by blast
    show ?thesis
      unfolding flt length_Cons unfold g
      using ng by (simp only: prod.case frames_Cons list.map) blast
  qed
qed

lemma run_nap:
  "run E (Suc (2 * k)) (a, Nap m) = (Sleep 10 # concat (replicate k [Frame m, Sleep 10]), a, Beat m)"
  using run_beat [of E k a m] by (simp del: mult_Suc_right replicate.simps)

lemma run_ai_start:
  "open_stream E a prompt = Inr (cs, e) \<Longrightarrow>
   run E (Suc n) (a, ai_response_generator prompt)
   = run E (Suc n) (a, AiLoop (initial_output prompt) [] cs e)"
  by (simp add: ai_response_generator_def)

lemma length_run_le: "length (fst (run E n s)) \<le> n"
proof (induction n arbitrary: s)
  case 0
  then show ?case by simp
next
  case (Suc n)
  show ?case
  proof (cases "step E s")
    case None
    then show ?thesis by simp
  next
    case (Some r)
    obtain ev s' where r: "r = (ev, s')" by (cases r)
    show ?thesis using Suc.IH [of s'] Some r by (auto split: prod.splits)
  qed
qed

lemma run_prefix_length:
  assumes "length (fst (run E (m + n) s)) = m + n"
  shows "length (fst (run E m s)) = m"
proof -
  obtain e1 s1 where r1: "run E m s = (e1, s1)" by (cases "run E m s")
  obtain e2 s2 where r2: "run E n s1 = (e2, s2)" by (cases "run E n s1")
  have "fst (run E (m + n) s) = e1 @ e2"
    by (simp add: run_add r1 r2)
  moreover have "length e1 \<le> m" using length_run_le [of E m s] r1 by simp
  moreover have "length e2 \<le> n" using length_run_le [of E n s1] r2 by simp
  ultimately show ?thesis using assms r1 by simp
qed

lemma run_nap_even:
  "run E (2 * k) (a, Nap m) = (concat (replicate k [Sleep 10, Frame m]), a, Nap m)"
  by (induction k) simp_all

lemma active_content:
  assumes "open_stream E a prompt = Inr (cs, e)"
    and "map token cs = map Inr ts"
    and "ns = filter (\<lambda>t. t \<noteq> []) ts"
    and "frames = map (\<lambda>k. sse_msg E (initial_output prompt @ concat (take (Suc k) ns))) [0..<length ns]"
  shows "\<exists>g. run E (length ns) (a, ai_response_generator prompt) = (map Frame frames, a, g) \<and> \<not> idle g"
proof (cases ns)
  case Nil
  then show ?thesis using assms(4) by (simp add: ai_response_generator_def)
next
  case (Cons n ns')
  then have len: "length ns = Suc (length ns')" by simp
  show ?thesis
    using run_for_loop_content [OF assms(2), of E a "initial_output prompt" "[]" e]
    unfolding assms(4) assms(3) [symmetric] len run_ai_start [OF assms(1)] .
qed

lemma active_completed:
  assumes "open_stream E a prompt = Inr (cs, Completed)"
    and "map token cs = map Inr ts"
    and "ns = filter (\<lambda>t. t \<noteq> []) ts"
    and "frames = map (\<lambda>k. sse_msg E (initial_output prompt @ concat (take (Suc k) ns))) [0..<length ns]"
  shows "run E (Suc (length ns)) (a, ai_response_generator prompt) =
           (map Frame frames @ [Frame (last ([] # frames))],
            a\<lparr>message_history := message_history a @ [\<lparr>message = initial_output prompt @ concat ts\<rparr>]\<rparr>,
            Nap (last ([] # frames)))"
  using run_for_loop [OF assms(2), of E a "initial_output prompt" "[]"]
  unfolding assms(4) assms(3) [symmetric] run_ai_start [OF assms(1)] .

lemma active_idle:
  assumes "open_stream E a prompt = Inr (cs, Completed)"
    and "map token cs = map Inr ts"
    and "ns = filter (\<lambda>t. t \<noteq> []) ts"
    and "frames = map (\<lambda>k. sse_msg E (initial_output prompt @ concat (take (Suc k) ns))) [0..<length ns]"
  shows "run E (Suc (length ns) + 2 * k) (a, ai_response_generator prompt) =
           (map Frame frames @ Frame (last ([] # frames)) # concat (replicate k [Sleep 10, Frame (last ([] # frames))]),
            a\<lparr>message_history := message_history a @ [\<lparr>message = initial_output prompt @ concat ts\<rparr>]\<rparr>,
            Nap (last ([] # frames)))"
  unfolding run_add active_completed [OF assms] prod.case run_nap_even by simp

lemma active_trace:
  assumes "open_stream E a prompt = Inr (cs, Completed)"
    and "map token cs = map Inr ts"
    and "ns = filter (\<lambda>t. t \<noteq> []) ts"
    and "frames = map (\<lambda>k. sse_msg E (initial_output prompt @ concat (take (Suc k) ns))) [0..<length ns]"
  shows "fst (run E (length ns + 2 * k) (a, ai_response_generator prompt)) =
           map Frame frames @ concat (replicate k [Frame (last ([] # frames)), Sleep 10])"
proof (cases k)
  case 0
  then show ?thesis using active_content [OF assms] by auto
next
  case (Suc j)
  have "length ns + 2 * k = Suc (length ns) + Suc (2 * j)"
    using Suc by simp
  then show ?thesis
    unfolding Suc
    by (simp only: run_add active_completed [OF assms] prod.case run_nap fst_conv
          replicate.simps concat.simps append_Cons append_Nil append_assoc)
qed

lemma concat_filter_nonempty: "concat (filter (\<lambda>t. t \<noteq> []) ts) = concat ts"
  by (induction ts) simp_all

lemma for_loop_history:
  "for_loop E a out msg cs e = (ev, a', g') \<Longrightarrow>
     (\<exists>out' msg' cs'. g' = AiLoop out' msg' cs' e \<and> a' = a \<and> prefix out out')
     \<or> (\<exists>m. g' = Nap m \<and> a' = a\<lparr>message_history := message_history a @ [\<lparr>message = out\<rparr>]\<rparr>)
     \<or> (g' = Closed \<and> a' = a)"
proof (induction cs)
  case Nil
  then show ?case by (cases e) auto
next
  case (Cons c cs)
  show ?case
  proof (cases "token c")
    case (Inl err)
    then show ?thesis using Cons.prems by simp
  next
    case (Inr t)
    show ?thesis
    proof (cases "t = []")
      case True
      then show ?thesis using Cons Inr by simp
    next
      case False
      then show ?thesis using Cons.prems Inr by (auto simp: Let_def)
    qed
  qed
qed











section \<open>Reset\<close>

text \<open>
  C7. With \<open>reset\<close> true the index operation leaves an empty history whatever the history
  was, and the onboarding answers as they were; with \<open>reset\<close> false (also the default
  when the parameter is absent) the history is unchanged.
\<close>

theorem api_index_reset:
  "message_history (snd (api_index chat True a)) = []
   \<and> system_information (snd (api_index chat True a)) = system_information a
   \<and> message_history (snd (api_index chat False a)) = message_history a"
  by (simp add: api_index_def)

section \<open>The prompt assembler\<close>

text \<open>
  C2. Whenever the messages are built, the last of them has the role \<open>user\<close> and its
  content is the text \<open>Previous messages:\<close> and a newline, then the message of every
  history entry in the order of the list, each followed by a newline, then \<open>Human: \<close>
  and the prompt. For the history X, Y and the prompt Z this is the text
  \<open>Previous messages:\<close>, newline, X, newline, Y, newline, \<open>Human: Z\<close>.
\<close>

theorem prompt_template_final_message:
  assumes "mistral_messages a prompt = Inr msgs"
  shows "last msgs =
           \<lparr>role = ''user'',
            content = (''Previous messages:'' @ [CHR 0x0A])
                      @ concat (map (\<lambda>h. message h @ [CHR 0x0A]) (message_history a))
                      @ ''Human: '' @ prompt\<rparr>"
proof -
  have "prompt_template a prompt =
          (''Previous messages:'' @ [CHR 0x0A])
          @ concat (map (\<lambda>h. message h @ [CHR 0x0A]) (message_history a))
          @ ''Human: '' @ prompt"
    unfolding prompt_template_def foldl_append_concat by simp
  moreover have "last msgs = \<lparr>role = ''user'', content = prompt_template a prompt\<rparr>"
    using assms by (auto simp: mistral_messages_def split: sum.splits)
  ultimately show ?thesis by simp
qed

theorem prompt_template_final_message_witness:
  "mistral_messages
     \<lparr>message_history = [\<lparr>message = ''X''\<rparr>, \<lparr>message = ''Y''\<rparr>],
      system_information = [''Systems being used'' \<mapsto> ''A'', ''Initial Observations'' \<mapsto> ''B'',
                            ''Initial Error messages'' \<mapsto> ''C'']\<rparr> ''Z''
   = Inr [\<lparr>role = ''system'', content = system_message\<rparr>,
          \<lparr>role = ''assistant'', content = ''What systems are you using for your Application?''\<rparr>,
          \<lparr>role = ''user'', content = ''A''\<rparr>,
          \<lparr>role = ''assistant'', content = ''What are your initial observations for you incident?''\<rparr>,
          \<lparr>role = ''user'', content = ''B''\<rparr>,
          \<lparr>role = ''assistant'', content = ''Have you had any initial error messages?''\<rparr>,
          \<lparr>role = ''user'', content = ''C''\<rparr>,
          \<lparr>role = ''user'',
           content = ''Previous messages:'' @ CHR 0x0A # ''X'' @ CHR 0x0A # ''Y'' @ CHR 0x0A # ''Human: Z''\<rparr>]
   \<and> content (last (projr (mistral_messages
     \<lparr>message_history = [\<lparr>message = ''X''\<rparr>, \<lparr>message = ''Y''\<rparr>],
      system_information = [''Systems being used'' \<mapsto> ''A'', ''Initial Observations'' \<mapsto> ''B'',
                            ''Initial Error messages'' \<mapsto> ''C'']\<rparr> ''Z'')))
     = ''Previous messages:'' @ CHR 0x0A # ''X'' @ CHR 0x0A # ''Y'' @ CHR 0x0A # ''Human: Z''"
proof -
  let ?a = "\<lparr>message_history = [\<lparr>message = ''X''\<rparr>, \<lparr>message = ''Y''\<rparr>],
      system_information = [''Systems being used'' \<mapsto> ''A'', ''Initial Observations'' \<mapsto> ''B'',
                            ''Initial Error messages'' \<mapsto> ''C'']\<rparr>"
  have m: "mistral_messages ?a ''Z'' = Inr (projr (mistral_messages ?a ''Z''))"
    by (simp add: mistral_messages_def getitem_def)
  show ?thesis
    using prompt_template_final_message [OF m]
    by (simp add: mistral_messages_def getitem_def prompt_template_def)
qed



section \<open>The empty-prompt path\<close>

text \<open>
  C4. For an absent prompt, the empty prompt and the text \<open>None\<close> the relay takes the
  empty path: the first frame is the rendering of the empty text, and for every \<open>k\<close> the
  events after it are \<open>k\<close> rounds of the same frame and a sleep of 10, the generator
  standing ready to send the frame once more; the state of the application is untouched.
\<close>

theorem empty_prompt_heartbeat:
  assumes "prompt = None \<or> prompt = Some '''' \<or> prompt = Some ''None''"
  shows "run E (Suc (2 * k)) (a, sse_ai_response prompt) =
           (Frame (''data: '' @ model_dump_json E '''' @ [CHR 0x0A, CHR 0x0A])
              # concat (replicate k [Frame (''data: '' @ model_dump_json E '''' @ [CHR 0x0A, CHR 0x0A]), Sleep 10]),
            a, Beat (''data: '' @ model_dump_json E '''' @ [CHR 0x0A, CHR 0x0A]))"
proof -
  have "sse_ai_response prompt = EmptyStart"
    using assms by (auto simp: sse_ai_response_def empty_response_def)
  then show ?thesis
    using run_beat [of E k a "sse_msg E ''''"]
    by (simp add: sse_msg_def del: mult_Suc_right replicate.simps)
qed

theorem empty_prompt_heartbeat_witness:
  "(Some ''None'' = None \<or> Some ''None'' = Some '''' \<or> Some ''None'' = Some ''None'')
   \<and> run \<lparr>config_MISTRAL_API_KEY = None, chat_stream = (\<lambda>key model msgs. ([], Interrupted)),
           model_dump_json = (\<lambda>t. ''[{'' @ t @ ''}]'')\<rparr>
        7 (initial_app, sse_ai_response (Some ''None''))
     = ([Frame (''data: [{}]'' @ [CHR 0x0A, CHR 0x0A]),
         Frame (''data: [{}]'' @ [CHR 0x0A, CHR 0x0A]), Sleep 10,
         Frame (''data: [{}]'' @ [CHR 0x0A, CHR 0x0A]), Sleep 10,
         Frame (''data: [{}]'' @ [CHR 0x0A, CHR 0x0A]), Sleep 10],
        initial_app, Beat (''data: [{}]'' @ [CHR 0x0A, CHR 0x0A]))"
  using empty_prompt_heartbeat [of "Some ''None''"
      "\<lparr>config_MISTRAL_API_KEY = None, chat_stream = (\<lambda>key model msgs. ([], Interrupted)),
           model_dump_json = (\<lambda>t. ''[{'' @ t @ ''}]'')\<rparr>" 3 initial_app]
  by (simp add: numeral_eq_Suc sse_ai_response_def empty_response_def)

section \<open>The active-generation path\<close>

text \<open>
  C1. Let the stream opened for the prompt complete normally with chunks whose tokens
  are \<open>ts\<close> (an absent content counting as the empty text), and let \<open>ns\<close> be the non-empty
  ones. Then the first \<open>length ns\<close> events of the generator are frames, the frame for the
  \<open>k\<close>-th non-empty token rendering the initial output followed by all non-empty tokens
  up to and including that one; the generator is still in its \<open>for\<close> loop after them
  and in the heartbeat loop one event later, so that these are all the content frames and
  empty tokens sent none. For the tokens \<open>Hello\<close>, the empty text and \<open> world\<close> there are
  two content frames, the second rendering the output of the first with \<open> world\<close> appended.
\<close>

theorem relay_accumulates:
  assumes "open_stream E a prompt = Inr (cs, Completed)"
    and "map token cs = map Inr ts"
    and "ns = filter (\<lambda>t. t \<noteq> '''') ts"
  shows "fst (run E (length ns) (a, ai_response_generator prompt)) =
           map (\<lambda>k. Frame (sse_msg E (initial_output prompt @ concat (take (Suc k) ns)))) [0..<length ns]
         \<and> \<not> idle (snd (snd (run E (length ns) (a, ai_response_generator prompt))))
         \<and> idle (snd (snd (run E (Suc (length ns)) (a, ai_response_generator prompt))))
         \<and> (ts = [''Hello'', '''', '' world''] \<longrightarrow>
              fst (run E 2 (a, ai_response_generator prompt)) =
                [Frame (sse_msg E (initial_output prompt @ ''Hello'')),
                 Frame (sse_msg E ((initial_output prompt @ ''Hello'') @ '' world''))]
              \<and> \<not> idle (snd (snd (run E 2 (a, ai_response_generator prompt))))
              \<and> idle (snd (snd (run E 3 (a, ai_response_generator prompt)))))"
proof -
  define frames where
    "frames = map (\<lambda>k. sse_msg E (initial_output prompt @ concat (take (Suc k) ns))) [0..<length ns]"
  from active_content [OF assms(1,2,3) frames_def]
  obtain g where g: "run E (length ns) (a, ai_response_generator prompt) = (map Frame frames, a, g)"
    and ng: "\<not> idle g"
    by blast
  have content: "fst (run E (length ns) (a, ai_response_generator prompt)) =
      map (\<lambda>k. Frame (sse_msg E (initial_output prompt @ concat (take (Suc k) ns)))) [0..<length ns]"
    using g by (simp add: frames_def comp_def)
  have still: "\<not> idle (snd (snd (run E (length ns) (a, ai_response_generator prompt))))"
    using g ng by simp
  have after: "idle (snd (snd (run E (Suc (length ns)) (a, ai_response_generator prompt))))"
    by (simp only: active_completed [OF assms(1,2,3) frames_def] snd_conv idle.simps)
  have example: "fst (run E 2 (a, ai_response_generator prompt)) =
                [Frame (sse_msg E (initial_output prompt @ ''Hello'')),
                 Frame (sse_msg E ((initial_output prompt @ ''Hello'') @ '' world''))]
              \<and> \<not> idle (snd (snd (run E 2 (a, ai_response_generator prompt))))
              \<and> idle (snd (snd (run E 3 (a, ai_response_generator prompt))))"
    if "ts = [''Hello'', '''', '' world'']"
  proof -
    have ns: "ns = [''Hello'', '' world'']" using that assms(3) by simp
    then have two: "length ns = 2" and three: "Suc (length ns) = 3" by simp_all
    have "[0..<length ns] = [0, Suc 0]" unfolding two by (simp add: upt_conv_Cons)
    then show ?thesis
      using content still after unfolding two three by (simp add: ns)
  qed
  show ?thesis using content still after example by blast
qed

theorem relay_accumulates_witness:
  "open_stream
     \<lparr>config_MISTRAL_API_KEY = Some ''key'',
      chat_stream = (\<lambda>key model msgs.
        ([Chunk [Choice (Some ''Hello'')], Chunk [Choice (Some '''')], Chunk [Choice (Some '' world'')]],
         Completed)),
      model_dump_json = (\<lambda>t. t)\<rparr> initial_app ''hi''
   = Inr ([Chunk [Choice (Some ''Hello'')], Chunk [Choice (Some '''')], Chunk [Choice (Some '' world'')]],
          Completed)
   \<and> map token [Chunk [Choice (Some ''Hello'')], Chunk [Choice (Some '''')], Chunk [Choice (Some '' world'')]]
     = map Inr [''Hello'', '''', '' world'']
   \<and> fst (run
     \<lparr>config_MISTRAL_API_KEY = Some ''key'',
      chat_stream = (\<lambda>key model msgs.
        ([Chunk [Choice (Some ''Hello'')], Chunk [Choice (Some '''')], Chunk [Choice (Some '' world'')]],
         Completed)),
      model_dump_json = (\<lambda>t. t)\<rparr> 2 (initial_app, ai_response_generator ''hi''))
     = [Frame (''data: **User:** hi'' @ [CHR 0x0A, CHR 0x0A] @ ''**Chatbot:** Hello'' @ [CHR 0x0A, CHR 0x0A]),
        Frame (''data: **User:** hi'' @ [CHR 0x0A, CHR 0x0A] @ ''**Chatbot:** Hello world'' @ [CHR 0x0A, CHR 0x0A])]
   \<and> idle (snd (snd (run
     \<lparr>config_MISTRAL_API_KEY = Some ''key'',
      chat_stream = (\<lambda>key model msgs.
        ([Chunk [Choice (Some ''Hello'')], Chunk [Choice (Some '''')], Chunk [Choice (Some '' world'')]],
         Completed)),
      model_dump_json = (\<lambda>t. t)\<rparr> 3 (initial_app, ai_response_generator ''hi''))))"
proof -
  let ?cs = "[Chunk [Choice (Some ''Hello'')], Chunk [Choice (Some '''')], Chunk [Choice (Some '' world'')]]"
  let ?E = "\<lparr>config_MISTRAL_API_KEY = Some ''key'',
      chat_stream = (\<lambda>key model msgs. (?cs, Completed)),
      model_dump_json = (\<lambda>t. t)\<rparr>"
  have h1: "open_stream ?E initial_app ''hi'' = Inr (?cs, Completed)"
    by (simp add: open_stream_def mistral_messages_def getitem_def initial_app_def)
  have h2: "map token ?cs = map Inr [''Hello'', '''', '' world'']"
    by (simp add: token_def)
  show ?thesis
    using relay_accumulates [OF h1 h2 refl] h1 h2
    by (simp add: sse_msg_def initial_output_def)
qed

section \<open>The heartbeat after generation\<close>

text \<open>
  C5. Let the stream complete normally after at least one content frame. Then for every
  \<open>k\<close> the events that follow the content frames begin with \<open>k\<close> rounds of the last
  content frame, unchanged, and a sleep of 10: every later frame is that frame, the wait
  between two of them is always 10, and since the generator yields an event at each of
  any number \<open>n\<close> of resumptions, the loop never ends.
\<close>

theorem heartbeat_repeats_last_frame:
  assumes "open_stream E a prompt = Inr (cs, Completed)"
    and "map token cs = map Inr ts"
    and "ns = filter (\<lambda>t. t \<noteq> '''') ts"
    and "frames = map (\<lambda>k. sse_msg E (initial_output prompt @ concat (take (Suc k) ns))) [0..<length ns]"
    and "ns \<noteq> []"
  shows "fst (run E (length ns + 2 * k) (a, ai_response_generator prompt)) =
           map Frame frames @ concat (replicate k [Frame (last frames), Sleep 10])
         \<and> length (fst (run E n (a, ai_response_generator prompt))) = n"
proof -
  have "frames \<noteq> []" using assms(4,5) by simp
  then have hb: "last ([] # frames) = last frames" by simp
  have trace: "fst (run E (length ns + 2 * j) (a, ai_response_generator prompt)) =
           map Frame frames @ concat (replicate j [Frame (last frames), Sleep 10])" for j
    using active_trace [OF assms(1-4), of j] unfolding hb .
  have "length frames = length ns" using assms(4) by simp
  then have "length (fst (run E (length ns + 2 * n) (a, ai_response_generator prompt)))
      = length ns + 2 * n"
    unfolding trace by (simp add: length_concat sum_list_replicate)
  moreover have "length ns + 2 * n = n + (length ns + n)" by simp
  ultimately have "length (fst (run E (n + (length ns + n)) (a, ai_response_generator prompt)))
      = n + (length ns + n)"
    by (simp only:)
  then have "length (fst (run E n (a, ai_response_generator prompt))) = n"
    by (rule run_prefix_length)
  with trace [of k] show ?thesis by (rule conjI)
qed

theorem heartbeat_repeats_last_frame_witness:
  "open_stream
     \<lparr>config_MISTRAL_API_KEY = Some ''key'',
      chat_stream = (\<lambda>key model msgs.
        ([Chunk [Choice (Some ''Hello'')], Chunk [Choice None], Chunk [Choice (Some '' world'')]],
         Completed)),
      model_dump_json = (\<lambda>t. t)\<rparr> initial_app ''hi''
   = Inr ([Chunk [Choice (Some ''Hello'')], Chunk [Choice None], Chunk [Choice (Some '' world'')]],
          Completed)
   \<and> map token [Chunk [Choice (Some ''Hello'')], Chunk [Choice None], Chunk [Choice (Some '' world'')]]
     = map Inr [''Hello'', '''', '' world'']
   \<and> filter (\<lambda>t. t \<noteq> '''') [''Hello'', '''', '' world''] \<noteq> []
   \<and> fst (run
     \<lparr>config_MISTRAL_API_KEY = Some ''key'',
      chat_stream = (\<lambda>key model msgs.
        ([Chunk [Choice (Some ''Hello'')], Chunk [Choice None], Chunk [Choice (Some '' world'')]],
         Completed)),
      model_dump_json = (\<lambda>t. t)\<rparr> 8 (initial_app, ai_response_generator ''hi''))
     = [Frame (''data: **User:** hi'' @ [CHR 0x0A, CHR 0x0A] @ ''**Chatbot:** Hello'' @ [CHR 0x0A, CHR 0x0A]),
        Frame (''data: **User:** hi'' @ [CHR 0x0A, CHR 0x0A] @ ''**Chatbot:** Hello world'' @ [CHR 0x0A, CHR 0x0A]),
        Frame (''data: **User:** hi'' @ [CHR 0x0A, CHR 0x0A] @ ''**Chatbot:** Hello world'' @ [CHR 0x0A, CHR 0x0A]),
        Sleep 10,
        Frame (''data: **User:** hi'' @ [CHR 0x0A, CHR 0x0A] @ ''**Chatbot:** Hello world'' @ [CHR 0x0A, CHR 0x0A]),
        Sleep 10,
        Frame (''data: **User:** hi'' @ [CHR 0x0A, CHR 0x0A] @ ''**Chatbot:** Hello world'' @ [CHR 0x0A, CHR 0x0A]),
        Sleep 10]
   \<and> length (fst (run
     \<lparr>config_MISTRAL_API_KEY = Some ''key'',
      chat_stream = (\<lambda>key model msgs.
        ([Chunk [Choice (Some ''Hello'')], Chunk [Choice None], Chunk [Choice (Some '' world'')]],
         Completed)),
      model_dump_json = (\<lambda>t. t)\<rparr> 9 (initial_app, ai_response_generator ''hi''))) = 9"
proof -
  let ?cs = "[Chunk [Choice (Some ''Hello'')], Chunk [Choice None], Chunk [Choice (Some '' world'')]]"
  let ?E = "\<lparr>config_MISTRAL_API_KEY = Some ''key'',
      chat_stream = (\<lambda>key model msgs. (?cs, Completed)),
      model_dump_json = (\<lambda>t. t)\<rparr>"
  have h1: "open_stream ?E initial_app ''hi'' = Inr (?cs, Completed)"
    by (simp add: open_stream_def mistral_messages_def getitem_def initial_app_def)
  have h2: "map token ?cs = map Inr [''Hello'', '''', '' world'']"
    by (simp add: token_def)
  have h5: "filter (\<lambda>t. t \<noteq> '''') [''Hello'', '''', '' world''] \<noteq> []"
    by simp
  have r3: "replicate 3 x = [x, x, x]" for x :: "event list"
    by (simp add: numeral_eq_Suc)
  show ?thesis
    using heartbeat_repeats_last_frame [OF h1 h2 refl refl h5, of 3 9] h1 h2
    by (simp add: sse_msg_def initial_output_def r3)
qed

text \<open>
  Without a content frame the statement fails. A stream whose only chunk has no content
  completes normally and no content frame is sent: the generator is in the heartbeat
  loop after its first event, and that event and every frame after it is the empty text
  that \<open>msg\<close> started with, which is not the rendering of the output.
\<close>

theorem heartbeat_without_content_frame:
  "open_stream
     \<lparr>config_MISTRAL_API_KEY = Some ''key'',
      chat_stream = (\<lambda>key model msgs. ([Chunk [Choice None]], Completed)),
      model_dump_json = (\<lambda>t. t)\<rparr> initial_app ''hi''
   = Inr ([Chunk [Choice None]], Completed)
   \<and> run
     \<lparr>config_MISTRAL_API_KEY = Some ''key'',
      chat_stream = (\<lambda>key model msgs. ([Chunk [Choice None]], Completed)),
      model_dump_json = (\<lambda>t. t)\<rparr> 1 (initial_app, ai_response_generator ''hi'')
     = ([Frame ''''],
        initial_app\<lparr>message_history :=
          [\<lparr>message = ''**User:** hi'' @ [CHR 0x0A, CHR 0x0A] @ ''**Chatbot:** ''\<rparr>]\<rparr>,
        Nap '''')
   \<and> fst (run
     \<lparr>config_MISTRAL_API_KEY = Some ''key'',
      chat_stream = (\<lambda>key model msgs. ([Chunk [Choice None]], Completed)),
      model_dump_json = (\<lambda>t. t)\<rparr> 6 (initial_app, ai_response_generator ''hi''))
     = [Frame '''', Sleep 10, Frame '''', Sleep 10, Frame '''', Sleep 10]
   \<and> sse_msg
     \<lparr>config_MISTRAL_API_KEY = Some ''key'',
      chat_stream = (\<lambda>key model msgs. ([Chunk [Choice None]], Completed)),
      model_dump_json = (\<lambda>t. t)\<rparr> (initial_output ''hi'') \<noteq> ''''"
  by (simp add: ai_response_generator_def open_stream_def mistral_messages_def getitem_def
        initial_app_def token_def initial_output_def sse_msg_def numeral_eq_Suc)

text \<open>
  C9. Let the stream complete normally without a non-empty token. Then the first event
  is already a heartbeat frame; with it the history has received one entry whose message
  is \<open>**User:** \<close>, the prompt, two newlines and \<open>**Chatbot:** \<close> with nothing after it,
  and this frame and every heartbeat frame after it is the empty text, \<open>msg\<close> never
  having been assigned; no rendered frame is the empty text.
\<close>

theorem silent_stream_heartbeat:
  assumes "open_stream E a prompt = Inr (cs, Completed)"
    and "map token cs = map Inr ts"
    and "filter (\<lambda>t. t \<noteq> '''') ts = []"
  shows "run E (Suc (2 * k)) (a, ai_response_generator prompt) =
           (Frame '''' # concat (replicate k [Sleep 10, Frame '''']),
            a\<lparr>message_history := message_history a @
               [\<lparr>message = ''**User:** '' @ prompt @ [CHR 0x0A, CHR 0x0A] @ ''**Chatbot:** ''\<rparr>]\<rparr>,
            Nap '''')
         \<and> sse_msg E rendered \<noteq> ''''"
proof -
  have ns: "[] = filter (\<lambda>t. t \<noteq> '''') ts" using assms(3) by (rule sym)
  have fr: "[] = map (\<lambda>k. sse_msg E (initial_output prompt @ concat (take (Suc k) []))) [0..<length ([] :: string list)]"
    by simp
  have "concat (filter (\<lambda>t. t \<noteq> []) ts) = concat ts"
    by (rule concat_filter_nonempty)
  then have ct: "concat ts = []"
    unfolding assms(3) by simp
  have out: "initial_output prompt @ concat ts
      = ''**User:** '' @ prompt @ [CHR 0x0A, CHR 0x0A] @ ''**Chatbot:** ''"
    unfolding ct initial_output_def by simp
  have n: "Suc (length ([] :: string list)) + 2 * k = Suc (2 * k)" by simp
  have hb: "last ([] # ([] :: string list)) = []" by simp
  have "run E (Suc (2 * k)) (a, ai_response_generator prompt) =
           (Frame '''' # concat (replicate k [Sleep 10, Frame '''']),
            a\<lparr>message_history := message_history a @
               [\<lparr>message = ''**User:** '' @ prompt @ [CHR 0x0A, CHR 0x0A] @ ''**Chatbot:** ''\<rparr>]\<rparr>,
            Nap '''')"
    using active_idle [OF assms(1,2) ns fr, of k]
    unfolding n hb out by (simp only: list.map append_Nil)
  moreover have "sse_msg E rendered \<noteq> ''''"
    by (simp add: sse_msg_def)
  ultimately show ?thesis by (rule conjI)
qed

theorem silent_stream_heartbeat_witness:
  "open_stream
     \<lparr>config_MISTRAL_API_KEY = Some ''key'',
      chat_stream = (\<lambda>key model msgs. ([Chunk [Choice None], Chunk [Choice (Some '''')]], Completed)),
      model_dump_json = (\<lambda>t. t)\<rparr> initial_app ''hi''
   = Inr ([Chunk [Choice None], Chunk [Choice (Some '''')]], Completed)
   \<and> map token [Chunk [Choice None], Chunk [Choice (Some '''')]] = map Inr ['''', '''']
   \<and> filter (\<lambda>t. t \<noteq> '''') ['''', ''''] = []
   \<and> run
     \<lparr>config_MISTRAL_API_KEY = Some ''key'',
      chat_stream = (\<lambda>key model msgs. ([Chunk [Choice None], Chunk [Choice (Some '''')]], Completed)),
      model_dump_json = (\<lambda>t. t)\<rparr> 7 (initial_app, ai_response_generator ''hi'')
     = ([Frame '''', Sleep 10, Frame '''', Sleep 10, Frame '''', Sleep 10, Frame ''''],
        initial_app\<lparr>message_history :=
          [\<lparr>message = ''**User:** hi'' @ [CHR 0x0A, CHR 0x0A] @ ''**Chatbot:** ''\<rparr>]\<rparr>,
        Nap '''')"
proof -
  let ?cs = "[Chunk [Choice None], Chunk [Choice (Some '''')]]"
  let ?E = "\<lparr>config_MISTRAL_API_KEY = Some ''key'',
      chat_stream = (\<lambda>key model msgs. (?cs, Completed)),
      model_dump_json = (\<lambda>t. t)\<rparr>"
  have h1: "open_stream ?E initial_app ''hi'' = Inr (?cs, Completed)"
    by (simp add: open_stream_def mistral_messages_def getitem_def initial_app_def)
  have h2: "map token ?cs = map Inr ['''', '''']"
    by (simp add: token_def)
  have h3: "filter (\<lambda>t. t \<noteq> '''') ['''', ''''] = []"
    by simp
  have r3: "replicate 3 x = [x, x, x]" for x :: "event list"
    by (simp add: numeral_eq_Suc)
  have "message_history initial_app = []"
    by (simp add: initial_app_def)
  then show ?thesis
    using silent_stream_heartbeat [OF h1 h2 h3, where k = 3 and rendered = "[]"] h1 h2
    by (simp add: r3)
qed



section \<open>The history\<close>




text \<open>
  C8. Every operation keeps the order of the history: the index operation leaves it as it
  is or, on reset, empties it; the onboarding operation leaves it as it is; resuming a
  generator leaves it as it is or appends one entry at the end. The prompt template
  replays the entries in the order of the list and in no other.
\<close>

theorem history_append_only:
  "message_history (snd (api_index chat reset a)) = (if reset then [] else message_history a)
   \<and> message_history (update_initial_information systems_used initial_observations initial_errors a)
       = message_history a
   \<and> (step E (a, g) = Some (ev, a', g') \<longrightarrow>
        message_history a' = message_history a
        \<or> (\<exists>entry. message_history a' = message_history a @ [entry]))
   \<and> prompt_template a prompt =
        (''Previous messages:'' @ [CHR 0x0A])
        @ concat (map (\<lambda>h. message h @ [CHR 0x0A]) (message_history a))
        @ ''Human: '' @ prompt"
proof -
  have index: "message_history (snd (api_index chat reset a)) = (if reset then [] else message_history a)"
    by (simp add: api_index_def)
  have onboarding: "message_history (update_initial_information systems_used initial_observations initial_errors a)
       = message_history a"
    by (simp add: update_initial_information_def)
  have loop: "message_history a1 = message_history a
        \<or> (\<exists>entry. message_history a1 = message_history a @ [entry])"
    if "for_loop E a out msg cs e = (ev1, a1, g1)" for out msg cs e ev1 a1 g1
    using for_loop_history [OF that] by auto
  have resume: "message_history a' = message_history a
        \<or> (\<exists>entry. message_history a' = message_history a @ [entry])"
    if st: "step E (a, g) = Some (ev, a', g')"
  proof (cases g)
    case (AiStart p)
    show ?thesis
    proof (cases "open_stream E a p")
      case (Inl err)
      then show ?thesis using st AiStart by simp
    next
      case (Inr r)
      obtain cs e where "r = (cs, e)" by (cases r)
      then have "for_loop E a (initial_output p) [] cs e = (ev, a', g')"
        using st AiStart Inr by simp
      then show ?thesis by (rule loop)
    qed
  next
    case (AiLoop out msg cs e)
    then have "for_loop E a out msg cs e = (ev, a', g')" using st by simp
    then show ?thesis by (rule loop)
  qed (use st in auto)
  have replay: "prompt_template a prompt =
        (''Previous messages:'' @ [CHR 0x0A])
        @ concat (map (\<lambda>h. message h @ [CHR 0x0A]) (message_history a))
        @ ''Human: '' @ prompt"
    unfolding prompt_template_def foldl_append_concat by simp
  from index onboarding resume replay show ?thesis by blast
qed

theorem history_append_only_witness:
  "step \<lparr>config_MISTRAL_API_KEY = Some ''key'',
         chat_stream = (\<lambda>key model msgs. ([Chunk [Choice (Some ''Hello'')]], Completed)),
         model_dump_json = (\<lambda>t. t)\<rparr>
     (\<lparr>message_history = [\<lparr>message = ''X''\<rparr>], system_information = system_information initial_app\<rparr>,
      AiLoop (''**User:** hi'' @ [CHR 0x0A, CHR 0x0A] @ ''**Chatbot:** Hello'') (''data: **User:** hi'' @ [CHR 0x0A, CHR 0x0A] @ ''**Chatbot:** Hello'' @ [CHR 0x0A, CHR 0x0A]) [] Completed)
   = Some (Frame (''data: **User:** hi'' @ [CHR 0x0A, CHR 0x0A] @ ''**Chatbot:** Hello'' @ [CHR 0x0A, CHR 0x0A]),
           \<lparr>message_history = [\<lparr>message = ''X''\<rparr>,
              \<lparr>message = ''**User:** hi'' @ [CHR 0x0A, CHR 0x0A] @ ''**Chatbot:** Hello''\<rparr>],
            system_information = system_information initial_app\<rparr>,
           Nap (''data: **User:** hi'' @ [CHR 0x0A, CHR 0x0A] @ ''**Chatbot:** Hello'' @ [CHR 0x0A, CHR 0x0A]))
   \<and> (message_history
          \<lparr>message_history = [\<lparr>message = ''X''\<rparr>,
              \<lparr>message = ''**User:** hi'' @ [CHR 0x0A, CHR 0x0A] @ ''**Chatbot:** Hello''\<rparr>],
            system_information = system_information initial_app\<rparr>
        = message_history
            \<lparr>message_history = [\<lparr>message = ''X''\<rparr>], system_information = system_information initial_app\<rparr>
      \<or> (\<exists>entry. message_history
            \<lparr>message_history = [\<lparr>message = ''X''\<rparr>,
              \<lparr>message = ''**User:** hi'' @ [CHR 0x0A, CHR 0x0A] @ ''**Chatbot:** Hello''\<rparr>],
            system_information = system_information initial_app\<rparr>
           = message_history
               \<lparr>message_history = [\<lparr>message = ''X''\<rparr>], system_information = system_information initial_app\<rparr>
             @ [entry]))
   \<and> message_history (snd (api_index None True
         \<lparr>message_history = [\<lparr>message = ''X''\<rparr>], system_information = system_information initial_app\<rparr>)) = []
   \<and> prompt_template
         \<lparr>message_history = [\<lparr>message = ''X''\<rparr>], system_information = system_information initial_app\<rparr> ''Z''
       = ''Previous messages:'' @ CHR 0x0A # ''X'' @ CHR 0x0A # ''Human: Z''"
proof -
  let ?E = "\<lparr>config_MISTRAL_API_KEY = Some ''key'',
         chat_stream = (\<lambda>key model msgs. ([Chunk [Choice (Some ''Hello'')]], Completed)),
         model_dump_json = (\<lambda>t. t)\<rparr>"
  let ?a = "\<lparr>message_history = [\<lparr>message = ''X''\<rparr>], system_information = system_information initial_app\<rparr>"
  let ?a' = "\<lparr>message_history = [\<lparr>message = ''X''\<rparr>,
              \<lparr>message = ''**User:** hi'' @ [CHR 0x0A, CHR 0x0A] @ ''**Chatbot:** Hello''\<rparr>],
            system_information = system_information initial_app\<rparr>"
  let ?g = "AiLoop (''**User:** hi'' @ [CHR 0x0A, CHR 0x0A] @ ''**Chatbot:** Hello'') (''data: **User:** hi'' @ [CHR 0x0A, CHR 0x0A] @ ''**Chatbot:** Hello'' @ [CHR 0x0A, CHR 0x0A]) [] Completed"
  have h: "step ?E (?a, ?g) = Some (Frame (''data: **User:** hi'' @ [CHR 0x0A, CHR 0x0A] @ ''**Chatbot:** Hello'' @ [CHR 0x0A, CHR 0x0A]), ?a', Nap (''data: **User:** hi'' @ [CHR 0x0A, CHR 0x0A] @ ''**Chatbot:** Hello'' @ [CHR 0x0A, CHR 0x0A]))"
    by simp
  note fact = history_append_only [of None True ?a "''''" "''''" "''''" ?E ?g
      "Frame (''data: **User:** hi'' @ [CHR 0x0A, CHR 0x0A] @ ''**Chatbot:** Hello'' @ [CHR 0x0A, CHR 0x0A])" ?a' "Nap (''data: **User:** hi'' @ [CHR 0x0A, CHR 0x0A] @ ''**Chatbot:** Hello'' @ [CHR 0x0A, CHR 0x0A])" "''Z''"]
  from fact have "message_history ?a' = message_history ?a
      \<or> (\<exists>entry. message_history ?a' = message_history ?a @ [entry])"
    using h by blast
  moreover from fact have "message_history (snd (api_index None True ?a)) = []"
    by simp
  moreover from fact have "prompt_template ?a ''Z''
      = ''Previous messages:'' @ CHR 0x0A # ''X'' @ CHR 0x0A # ''Human: Z''"
    by simp
  ultimately show ?thesis using h by blast
qed

end
